theory Spec2Isabelle
  imports Complex_Main "HOL-Library.Word" "HOL-Library.FSet"
begin

section \<open>The audio proxy device (audio_proxy/service/DeviceImpl.cpp)\<close>

text \<open>
  A shallow embedding of \<^verbatim>\<open>DeviceImpl\<close>, the HIDL audio device of the audio proxy
  service. Every method of the class becomes a function that takes the state it can
  touch and returns the new state together with what the method returns or hands to its
  \<^verbatim>\<open>_hidl_cb\<close> callback. The methods behind \<^verbatim>\<open>#if MAJOR_VERSION >= 6\<close>
  (\<^verbatim>\<open>updateAudioPatch\<close>, \<^verbatim>\<open>close\<close>, \<^verbatim>\<open>addDeviceEffect\<close>,
  \<^verbatim>\<open>removeDeviceEffect\<close>) are those of a build with that version.
\<close>

subsection \<open>Interface types\<close>

text \<open>
  The fixed-width integers of C++ are words. A \<^verbatim>\<open>uint32_t\<close> is read with \<open>uint\<close>,
  an \<^verbatim>\<open>int32_t\<close> with \<open>sint\<close>.
\<close>

type_synonym uint32_t = "32 word"
type_synonym int32_t = "32 word"
type_synonym uint64_t = "64 word"

text \<open>The status codes of the HIDL audio interface.\<close>

datatype Result = OK | NOT_INITIALIZED | INVALID_ARGUMENTS | INVALID_STATE | NOT_SUPPORTED

text \<open>
  \<^verbatim>\<open>AudioPatchHandle\<close> and \<^verbatim>\<open>AudioPortHandle\<close> are \<^verbatim>\<open>int32_t\<close> in the
  HIDL audio types.
\<close>

type_synonym AudioPatchHandle = int32_t
type_synonym AudioPortHandle = int32_t

text \<open>
  The HIDL \<^verbatim>\<open>AudioConfig\<close> (versions 5.0 and 6.0): \<^verbatim>\<open>uint32_t sampleRateHz\<close>, a
  bit field of the \<^verbatim>\<open>uint32_t\<close> enumeration \<^verbatim>\<open>AudioChannelMask\<close>, and the
  \<^verbatim>\<open>uint32_t\<close> enumeration \<^verbatim>\<open>AudioFormat\<close>. The fields this file never reads
  (offload information, frame count) are the record's extension.
\<close>

record AudioConfig =
  sampleRateHz :: uint32_t
  channelMask :: uint32_t
  format :: uint32_t

text \<open>
  The configuration of the bus (\<^verbatim>\<open>AidlAudioConfig\<close>): \<^verbatim>\<open>sampleRateHz\<close> is an
  \<^verbatim>\<open>int32_t\<close>, and the two AIDL enumerations are backed by \<^verbatim>\<open>int32_t\<close>.
\<close>

record AidlAudioConfig =
  aidl_format :: int32_t
  aidl_sampleRateHz :: int32_t
  aidl_channelMask :: int32_t

record DeviceAddress =
  busAddress :: string

text \<open>
  An \<^verbatim>\<open>AudioPort\<close> as far as this file is concerned: its handle and its name; the
  other fields are the record's extension.
\<close>

record AudioPort =
  port_id :: AudioPortHandle
  port_name :: string

text \<open>
  \<^verbatim>\<open>StreamOutImpl\<close> is built from a shared pointer to the bus stream, which may be null,
  and the two settings of the device.
\<close>

datatype 'bus StreamOutImpl = StreamOutImpl "'bus option" uint32_t uint32_t

text \<open>
  The \<^verbatim>\<open>BusStreamProvider\<close> the device holds a reference to is not part of this file.
  Its state is a type parameter and the three methods the device calls are parameters:
  each takes the provider's state and returns the new one.
\<close>

record ('p, 'bus) BusStreamProvider =
  provider_openOutputStream ::
    "string \<Rightarrow> AidlAudioConfig \<Rightarrow> int32_t \<Rightarrow> 'p \<Rightarrow> 'bus option \<times> 'p"
  provider_onStreamOutCreated :: "'bus StreamOutImpl \<Rightarrow> 'p \<Rightarrow> 'p"
  provider_cleanAndCountStreamOuts :: "'p \<Rightarrow> nat \<times> 'p"

subsection \<open>State\<close>

text \<open>
  The state the methods of one device read and write: the file-level counter
  \<^verbatim>\<open>gNextAudioPatchHandle\<close> and the members of \<^verbatim>\<open>DeviceImpl\<close>, of which
  \<^verbatim>\<open>mAudioPatchHandles\<close> is a \<^verbatim>\<open>std::set\<close> of handles. The provider is held by
  reference and is passed separately.
\<close>

record state =
  gNextAudioPatchHandle :: AudioPatchHandle
  mBufferSizeMs :: uint32_t
  mLatencyMs :: uint32_t
  mAudioPatchHandles :: "AudioPatchHandle fset"

text \<open>The constructor, in a process whose counter still has its initial value.\<close>

definition DeviceImpl :: "uint32_t \<Rightarrow> uint32_t \<Rightarrow> state" where
  "DeviceImpl bufferSizeMs latencyMs =
     \<lparr>gNextAudioPatchHandle = 1, mBufferSizeMs = bufferSizeMs, mLatencyMs = latencyMs,
      mAudioPatchHandles = {||}\<rparr>"

text \<open>\<^verbatim>\<open>std::set::erase(key)\<close>: the set without the key, and the number of elements removed.\<close>

definition erase :: "'a fset \<Rightarrow> 'a \<Rightarrow> 'a fset \<times> nat" where
  "erase S k = (S |-| {|k|}, if k |\<in>| S then 1 else 0)"

subsection \<open>Configuration translation\<close>

text \<open>
  The three casts go from an unsigned 32-bit value to a signed one of the same width.
\<close>

definition toAidlAudioConfig :: "'a AudioConfig_scheme \<Rightarrow> AidlAudioConfig" where
  "toAidlAudioConfig hidl_config =
     \<lparr>aidl_format = ucast (format hidl_config),
      aidl_sampleRateHz = ucast (sampleRateHz hidl_config),
      aidl_channelMask = ucast (channelMask hidl_config)\<rparr>"

subsection \<open>Methods\<close>

definition initCheck :: "state \<Rightarrow> state \<times> Result" where
  "initCheck s = (s, OK)"

definition setMasterVolume :: "state \<Rightarrow> real \<Rightarrow> state \<times> Result" where
  "setMasterVolume s volume = (s, NOT_SUPPORTED)"

definition getMasterVolume :: "state \<Rightarrow> state \<times> Result \<times> real" where
  "getMasterVolume s = (s, NOT_SUPPORTED, 0)"

definition setMicMute :: "state \<Rightarrow> bool \<Rightarrow> state \<times> Result" where
  "setMicMute s mute = (s, NOT_SUPPORTED)"

definition getMicMute :: "state \<Rightarrow> state \<times> Result \<times> bool" where
  "getMicMute s = (s, NOT_SUPPORTED, False)"

definition setMasterMute :: "state \<Rightarrow> bool \<Rightarrow> state \<times> Result" where
  "setMasterMute s mute = (s, NOT_SUPPORTED)"

definition getMasterMute :: "state \<Rightarrow> state \<times> Result \<times> bool" where
  "getMasterMute s = (s, NOT_SUPPORTED, False)"

definition getInputBufferSize ::
  "state \<Rightarrow> 'a AudioConfig_scheme \<Rightarrow> state \<times> Result \<times> uint64_t" where
  "getInputBufferSize s config = (s, NOT_SUPPORTED, 0)"

text \<open>
  \<^verbatim>\<open>DCHECK\<close> aborts the process when its argument is null, in builds where it is
  compiled in (\<open>kEnableDChecks\<close>); elsewhere it does nothing and the stream object is
  built around the null pointer. \<open>None\<close> is the abort. The flags are a bit field of an
  \<^verbatim>\<open>int32_t\<close> enumeration, so their cast to \<^verbatim>\<open>int32_t\<close> changes nothing.
\<close>

definition openOutputStream ::
  "bool \<Rightarrow> ('p, 'bus) BusStreamProvider \<Rightarrow> 'p \<Rightarrow> state \<Rightarrow> int32_t \<Rightarrow> 'd DeviceAddress_scheme \<Rightarrow>
   'a AudioConfig_scheme \<Rightarrow> int32_t \<Rightarrow> 'm \<Rightarrow>
   ('p \<times> state \<times> Result \<times> 'bus StreamOutImpl \<times> 'a AudioConfig_scheme) option" where
  "openOutputStream kEnableDChecks provider p s ioHandle device config flags sourceMetadata =
     (case provider_openOutputStream provider (busAddress device) (toAidlAudioConfig config)
             flags p of
        (busOutputStream, p1) \<Rightarrow>
          if kEnableDChecks \<and> busOutputStream = None then None
          else
            let streamOut = StreamOutImpl busOutputStream (mBufferSizeMs s) (mLatencyMs s);
                p2 = provider_onStreamOutCreated provider streamOut p1
            in Some (p2, s, OK, streamOut, config))"

text \<open>The input stream handed back is the null pointer \<^verbatim>\<open>sp<IStreamIn>()\<close>.\<close>

definition openInputStream ::
  "state \<Rightarrow> int32_t \<Rightarrow> 'd DeviceAddress_scheme \<Rightarrow> 'a AudioConfig_scheme \<Rightarrow> int32_t \<Rightarrow> 'm \<Rightarrow>
   state \<times> Result \<times> 'streamIn option \<times> 'a AudioConfig_scheme" where
  "openInputStream s ioHandle device config flags sinkMetadata =
     (s, NOT_SUPPORTED, None, config)"

definition supportsAudioPatches :: "state \<Rightarrow> state \<times> bool" where
  "supportsAudioPatches s = (s, True)"

text \<open>
  \<^verbatim>\<open>AudioPatchHandle handle = gNextAudioPatchHandle++\<close>: the handle is the value the
  counter had, and the counter goes up by one. At \<open>2 ^ 31 - 1\<close> the increment
  overflows the \<^verbatim>\<open>int32_t\<close>; C++ leaves that undefined, and the addition of words
  gives it the two's-complement result \<open>- 2 ^ 31\<close>. The source has no check on the
  counter.
\<close>

definition createAudioPatch ::
  "state \<Rightarrow> 'c list \<Rightarrow> 'c list \<Rightarrow> state \<times> Result \<times> AudioPatchHandle" where
  "createAudioPatch s sources sinks =
     (let handle = gNextAudioPatchHandle s;
          s1 = s\<lparr>gNextAudioPatchHandle := gNextAudioPatchHandle s + 1\<rparr>;
          s2 = s1\<lparr>mAudioPatchHandles := finsert handle (mAudioPatchHandles s1)\<rparr>
      in (s2, OK, handle))"

definition releaseAudioPatch :: "state \<Rightarrow> AudioPatchHandle \<Rightarrow> state \<times> Result" where
  "releaseAudioPatch s patch =
     (case erase (mAudioPatchHandles s) patch of
        (handles, removed) \<Rightarrow>
          (s\<lparr>mAudioPatchHandles := handles\<rparr>,
           if removed > 0 then OK else INVALID_ARGUMENTS))"

definition getAudioPort :: "state \<Rightarrow> 'a AudioPort_scheme \<Rightarrow> state \<times> Result \<times> 'a AudioPort_scheme" where
  "getAudioPort s port = (s, NOT_SUPPORTED, port)"

definition setAudioPortConfig :: "state \<Rightarrow> 'c \<Rightarrow> state \<times> Result" where
  "setAudioPortConfig s config = (s, NOT_SUPPORTED)"

definition getHwAvSync :: "state \<Rightarrow> state \<times> Result \<times> uint32_t" where
  "getHwAvSync s = (s, NOT_SUPPORTED, 0)"

definition setScreenState :: "state \<Rightarrow> bool \<Rightarrow> state \<times> Result" where
  "setScreenState s turnedOn = (s, NOT_SUPPORTED)"

definition getParameters :: "state \<Rightarrow> 'v list \<Rightarrow> string list \<Rightarrow> state \<times> Result \<times> 'v list" where
  "getParameters s context keys = (s, NOT_SUPPORTED, [])"

definition setParameters :: "state \<Rightarrow> 'v list \<Rightarrow> 'v list \<Rightarrow> state \<times> Result" where
  "setParameters s context parameters = (s, NOT_SUPPORTED)"

definition getMicrophones :: "state \<Rightarrow> state \<times> Result \<times> 'mic list" where
  "getMicrophones s = (s, NOT_SUPPORTED, [])"

definition setConnectedState :: "state \<Rightarrow> 'd DeviceAddress_scheme \<Rightarrow> bool \<Rightarrow> state \<times> Result" where
  "setConnectedState s address isConnected = (s, OK)"

definition updateAudioPatch ::
  "state \<Rightarrow> AudioPatchHandle \<Rightarrow> 'c list \<Rightarrow> 'c list \<Rightarrow> state \<times> Result \<times> AudioPatchHandle" where
  "updateAudioPatch s previousPatch sources sinks =
     (case erase (mAudioPatchHandles s) previousPatch of
        (handles, removed) \<Rightarrow>
          let s0 = s\<lparr>mAudioPatchHandles := handles\<rparr> in
          if removed = 0 then (s0, INVALID_ARGUMENTS, 0)
          else
            let newPatch = gNextAudioPatchHandle s0;
                s1 = s0\<lparr>gNextAudioPatchHandle := gNextAudioPatchHandle s0 + 1\<rparr>;
                s2 = s1\<lparr>mAudioPatchHandles := finsert newPatch (mAudioPatchHandles s1)\<rparr>
            in (s2, OK, newPatch))"

definition close :: "('p, 'bus) BusStreamProvider \<Rightarrow> 'p \<Rightarrow> state \<Rightarrow> 'p \<times> state \<times> Result" where
  "close provider p s =
     (case provider_cleanAndCountStreamOuts provider p of
        (count, p1) \<Rightarrow> (p1, s, if count = 0 then OK else INVALID_STATE))"

definition addDeviceEffect :: "state \<Rightarrow> AudioPortHandle \<Rightarrow> uint64_t \<Rightarrow> state \<times> Result" where
  "addDeviceEffect s device effectId = (s, NOT_SUPPORTED)"

definition removeDeviceEffect :: "state \<Rightarrow> AudioPortHandle \<Rightarrow> uint64_t \<Rightarrow> state \<times> Result" where
  "removeDeviceEffect s device effectId = (s, NOT_SUPPORTED)"

subsection \<open>A provider to run the device against\<close>

text \<open>
  What a bus stream is made of is not in this file; the example below remembers what
  it was opened with.
\<close>

datatype BusOutputStream = BusOutputStream string AidlAudioConfig int32_t

text \<open>
  Modelled from the spec: the \<^verbatim>\<open>BusStreamProvider\<close> itself is missing. The spec gives
  its three operations: \<^verbatim>\<open>openOutputStream(busAddress, BusConfig, flags)\<close> returns a bus
  stream or null, \<^verbatim>\<open>onStreamOutCreated(streamSession)\<close> registers the session for
  liveness tracking, and \<^verbatim>\<open>cleanAndCountStreamOuts()\<close> prunes the dead entries and
  returns the number of live ones left. This instance keeps the registered sessions in
  a list, each with a flag saying whether it is still alive, and always opens a stream.
  The theorems below hold for every provider; this one is used to run them.
\<close>

definition example_provider ::
  "((BusOutputStream StreamOutImpl \<times> bool) list, BusOutputStream) BusStreamProvider" where
  "example_provider =
     \<lparr>provider_openOutputStream =
        (\<lambda>address config flags p. (Some (BusOutputStream address config flags), p)),
      provider_onStreamOutCreated = (\<lambda>streamOut p. (streamOut, True) # p),
      provider_cleanAndCountStreamOuts = (\<lambda>p. (length (filter snd p), filter snd p))\<rparr>"

subsection \<open>Sequences of patch calls\<close>

text \<open>
  A client calling \<^verbatim>\<open>createAudioPatch\<close> and \<^verbatim>\<open>releaseAudioPatch\<close> one after the
  other: \<open>run_patch_calls\<close> makes the calls in order on the state and collects what
  each one returned.
\<close>

datatype 'c patch_call =
    CreateAudioPatch "'c list" "'c list"
  | ReleaseAudioPatch AudioPatchHandle

datatype patch_reply =
    Created Result AudioPatchHandle
  | Released AudioPatchHandle Result

fun run_patch_calls :: "state \<Rightarrow> 'c patch_call list \<Rightarrow> state \<times> patch_reply list" where
  "run_patch_calls s [] = (s, [])"
| "run_patch_calls s (CreateAudioPatch sources sinks # calls) =
     (case createAudioPatch s sources sinks of
        (s1, r, h) \<Rightarrow>
          (case run_patch_calls s1 calls of
             (s2, replies) \<Rightarrow> (s2, Created r h # replies)))"
| "run_patch_calls s (ReleaseAudioPatch h # calls) =
     (case releaseAudioPatch s h of
        (s1, r) \<Rightarrow>
          (case run_patch_calls s1 calls of
             (s2, replies) \<Rightarrow> (s2, Released h r # replies)))"

text \<open>The handles the creations returned, in the order of allocation.\<close>

fun created_handles :: "patch_reply list \<Rightarrow> AudioPatchHandle list" where
  "created_handles [] = []"
| "created_handles (Created r h # replies) = h # created_handles replies"
| "created_handles (Released h r # replies) = created_handles replies"

fun creates_succeeded :: "patch_reply list \<Rightarrow> bool" where
  "creates_succeeded [] = True"
| "creates_succeeded (Created r h # replies) = (r = OK \<and> creates_succeeded replies)"
| "creates_succeeded (Released h r # replies) = creates_succeeded replies"

text \<open>No handle that a call released with success is returned by a later creation.\<close>

fun released_not_reused :: "patch_reply list \<Rightarrow> bool" where
  "released_not_reused [] = True"
| "released_not_reused (Created r h # replies) = released_not_reused replies"
| "released_not_reused (Released h r # replies) =
     ((r = OK \<longrightarrow> h \<notin> set (created_handles replies)) \<and> released_not_reused replies)"

fun count_creates :: "'c patch_call list \<Rightarrow> nat" where
  "count_creates [] = 0"
| "count_creates (CreateAudioPatch sources sinks # calls) = Suc (count_creates calls)"
| "count_creates (ReleaseAudioPatch h # calls) = count_creates calls"

text \<open>The order of handles is that of \<^verbatim>\<open>int32_t\<close>.\<close>

definition handle_less :: "AudioPatchHandle \<Rightarrow> AudioPatchHandle \<Rightarrow> bool" where
  "handle_less a b = (sint a < sint b)"

definition strictly_increasing :: "AudioPatchHandle list \<Rightarrow> bool" where
  "strictly_increasing hs = sorted_wrt handle_less hs"

text \<open>
  Every open handle is below the counter. This holds after construction and as long as
  the counter has not overflowed.
\<close>

definition handles_below_counter :: "state \<Rightarrow> bool" where
  "handles_below_counter s =
     fBall (mAudioPatchHandles s) (\<lambda>h. sint h < sint (gNextAudioPatchHandle s))"

text \<open>A client that \<open>n\<close> times creates a patch and releases it at once.\<close>

fun create_release_cycles :: "nat \<Rightarrow> state \<Rightarrow> state" where
  "create_release_cycles 0 s = s"
| "create_release_cycles (Suc n) s =
     (case createAudioPatch s ([]::unit list) [] of
        (s1, r, h) \<Rightarrow> create_release_cycles n (fst (releaseAudioPatch s1 h)))"

text \<open>
  The state of a device after its first patch was created and kept open and
  \<open>2 ^ 32 - 1\<close> further patches were created and released.
\<close>

definition wrapped_state :: state where
  "wrapped_state =
     create_release_cycles 4294967295
       (fst (createAudioPatch (DeviceImpl 20 40) ([]::unit list) []))"

section \<open>Properties\<close>

subsection \<open>The set of open handles\<close>

lemma erase_absent: "k |\<notin>| S \<Longrightarrow> erase S k = (S, 0)"
  by (auto simp: erase_def)

lemma erase_present: "k |\<in>| S \<Longrightarrow> erase S k = (S |-| {|k|}, 1)"
  by (simp add: erase_def)

lemma createAudioPatch_eq:
  "createAudioPatch s sources sinks =
     (s\<lparr>gNextAudioPatchHandle := gNextAudioPatchHandle s + 1,
        mAudioPatchHandles := finsert (gNextAudioPatchHandle s) (mAudioPatchHandles s)\<rparr>,
      OK, gNextAudioPatchHandle s)"
  by (simp add: createAudioPatch_def Let_def)

lemma releaseAudioPatch_eq:
  "releaseAudioPatch s h =
     (s\<lparr>mAudioPatchHandles := mAudioPatchHandles s |-| {|h|}\<rparr>,
      if h |\<in>| mAudioPatchHandles s then OK else INVALID_ARGUMENTS)"
  by (simp add: releaseAudioPatch_def erase_def)

lemma updateAudioPatch_eq:
  assumes "h |\<in>| mAudioPatchHandles s"
  shows "updateAudioPatch s h sources sinks =
     (s\<lparr>gNextAudioPatchHandle := gNextAudioPatchHandle s + 1,
        mAudioPatchHandles :=
          finsert (gNextAudioPatchHandle s) (mAudioPatchHandles s |-| {|h|})\<rparr>,
      OK, gNextAudioPatchHandle s)"
  using assms by (simp add: updateAudioPatch_def erase_present Let_def)

subsection \<open>Releasing a patch\<close>

text \<open>
  C5: \<^verbatim>\<open>releaseAudioPatch(h)\<close> returns \<^verbatim>\<open>Result::OK\<close> if and only if \<open>h\<close> is in the
  set of open handles at the time of the call, and then removes exactly \<open>h\<close>;
  otherwise it returns \<^verbatim>\<open>INVALID_ARGUMENTS\<close> and changes nothing. Releasing the same
  handle a second time, right after the first, fails with \<^verbatim>\<open>INVALID_ARGUMENTS\<close>.
\<close>

theorem releaseAudioPatch_iff_open:
  "(snd (releaseAudioPatch s h) = OK) = (h |\<in>| mAudioPatchHandles s) \<and>
   releaseAudioPatch s h =
     (if h |\<in>| mAudioPatchHandles s
      then (s\<lparr>mAudioPatchHandles := mAudioPatchHandles s |-| {|h|}\<rparr>, OK)
      else (s, INVALID_ARGUMENTS)) \<and>
   snd (releaseAudioPatch (fst (releaseAudioPatch s h)) h) = INVALID_ARGUMENTS"
  by (auto simp: releaseAudioPatch_def erase_absent erase_present)

subsection \<open>Updating a patch that is not open\<close>

text \<open>
  C4: when \<open>h\<close> is not open, \<^verbatim>\<open>updateAudioPatch(h, sources, sinks)\<close> fails with
  \<^verbatim>\<open>INVALID_ARGUMENTS\<close> (and the handle 0), allocates nothing and leaves the whole
  state as it was: the counter and the set of open handles are unchanged, so a
  \<^verbatim>\<open>createAudioPatch\<close> right after it returns what it would have returned without the
  failed update.
\<close>

theorem updateAudioPatch_not_open:
  assumes "h |\<notin>| mAudioPatchHandles s"
  shows "updateAudioPatch s h sources sinks = (s, INVALID_ARGUMENTS, 0) \<and>
         createAudioPatch (fst (updateAudioPatch s h sources sinks)) sources' sinks' =
         createAudioPatch s sources' sinks'"
  using assms by (simp add: updateAudioPatch_def erase_absent)

theorem updateAudioPatch_not_open_witness:
  "5 |\<notin>| mAudioPatchHandles (DeviceImpl 20 40) \<and>
   updateAudioPatch (DeviceImpl 20 40) 5 ([]::nat list) [] =
     (DeviceImpl 20 40, INVALID_ARGUMENTS, 0) \<and>
   createAudioPatch (fst (updateAudioPatch (DeviceImpl 20 40) 5 ([]::nat list) []))
       ([]::nat list) [] =
     (\<lparr>gNextAudioPatchHandle = 2, mBufferSizeMs = 20, mLatencyMs = 40,
       mAudioPatchHandles = {|1|}\<rparr>, OK, 1)"
proof -
  have h: "5 |\<notin>| mAudioPatchHandles (DeviceImpl 20 40)"
    by (simp add: DeviceImpl_def)
  show ?thesis
    using h updateAudioPatch_not_open [OF h, of "[]::nat list" "[]" "[]::nat list" "[]"]
    by (simp add: createAudioPatch_def DeviceImpl_def)
qed

subsection \<open>Closing the device\<close>

text \<open>
  C2: \<^verbatim>\<open>close()\<close> returns \<^verbatim>\<open>Result::OK\<close> if and only if the provider's
  \<^verbatim>\<open>cleanAndCountStreamOuts\<close> reports zero sessions; when the count is not zero it
  returns \<^verbatim>\<open>INVALID_STATE\<close>. In both cases the state of the device (the set of open
  handles, the counter, the two settings) is what it was; only the provider has done its
  pruning.
\<close>

theorem close_OK_iff_no_streams:
  "(snd (snd (close provider p s)) = OK) =
     (fst (provider_cleanAndCountStreamOuts provider p) = 0) \<and>
   (fst (provider_cleanAndCountStreamOuts provider p) \<noteq> 0 \<longrightarrow>
      snd (snd (close provider p s)) = INVALID_STATE) \<and>
   fst (snd (close provider p s)) = s \<and>
   fst (close provider p s) = snd (provider_cleanAndCountStreamOuts provider p)"
  by (simp add: close_def split: prod.split)

theorem close_OK_iff_no_streams_witness:
  "fst (provider_cleanAndCountStreamOuts example_provider
          [(StreamOutImpl None 20 40, False), (StreamOutImpl None 20 40, True)]) \<noteq> 0 \<and>
   close example_provider [(StreamOutImpl None 20 40, False), (StreamOutImpl None 20 40, True)]
     (DeviceImpl 20 40) =
     ([(StreamOutImpl None 20 40, True)], DeviceImpl 20 40, INVALID_STATE) \<and>
   close example_provider [(StreamOutImpl None 20 40, False)] (DeviceImpl 20 40) =
     ([], DeviceImpl 20 40, OK)"
proof -
  let ?p = "[(StreamOutImpl None 20 40, False), (StreamOutImpl None 20 40, True)]"
  have h: "fst (provider_cleanAndCountStreamOuts example_provider ?p) \<noteq> 0"
    by (simp add: example_provider_def)
  from close_OK_iff_no_streams [of example_provider ?p "DeviceImpl 20 40"] h
  have "snd (snd (close example_provider ?p (DeviceImpl 20 40))) = INVALID_STATE"
    by blast
  then show ?thesis
    using h by (simp add: close_def example_provider_def)
qed

subsection \<open>The initial check\<close>

text \<open>
  C10: \<^verbatim>\<open>initCheck\<close> returns \<^verbatim>\<open>Result::OK\<close> in every state of the device and
  changes nothing; in particular it does so in the state a \<^verbatim>\<open>close()\<close> leaves behind.
\<close>

theorem initCheck_always_OK:
  "initCheck s = (s, OK) \<and> initCheck (fst (snd (close provider p s))) = (s, OK)"
  by (simp add: initCheck_def close_def split: prod.split)

subsection \<open>Opening an output stream\<close>

text \<open>
  C6: when the provider returns a bus stream that is not null, \<^verbatim>\<open>openOutputStream\<close>
  returns \<^verbatim>\<open>Result::OK\<close> with a stream session built around that bus stream and the
  two settings of the device, and with the requested configuration itself as the
  negotiated one: no field of it, read or unread, is changed. The session has been
  registered with the provider and the state of the device is unchanged.
\<close>

theorem openOutputStream_echoes_config:
  assumes "provider_openOutputStream provider (busAddress device) (toAidlAudioConfig config)
             flags p = (Some bus, p1)"
  shows "openOutputStream kEnableDChecks provider p s ioHandle device config flags sourceMetadata =
         Some (provider_onStreamOutCreated provider
                 (StreamOutImpl (Some bus) (mBufferSizeMs s) (mLatencyMs s)) p1,
               s, OK, StreamOutImpl (Some bus) (mBufferSizeMs s) (mLatencyMs s), config)"
  using assms by (simp add: openOutputStream_def Let_def)

theorem openOutputStream_echoes_config_witness:
  "provider_openOutputStream example_provider (busAddress \<lparr>busAddress = ''bus0''\<rparr>)
     (toAidlAudioConfig \<lparr>sampleRateHz = 48000, channelMask = 3, format = 1\<rparr>) 2 [] =
     (Some (BusOutputStream ''bus0''
        \<lparr>aidl_format = 1, aidl_sampleRateHz = 48000, aidl_channelMask = 3\<rparr> 2), []) \<and>
   openOutputStream True example_provider [] (DeviceImpl 20 40) 7 \<lparr>busAddress = ''bus0''\<rparr>
     \<lparr>sampleRateHz = 48000, channelMask = 3, format = 1\<rparr> 2 () =
     Some ([(StreamOutImpl (Some (BusOutputStream ''bus0''
               \<lparr>aidl_format = 1, aidl_sampleRateHz = 48000, aidl_channelMask = 3\<rparr> 2)) 20 40,
             True)],
           DeviceImpl 20 40, OK,
           StreamOutImpl (Some (BusOutputStream ''bus0''
               \<lparr>aidl_format = 1, aidl_sampleRateHz = 48000, aidl_channelMask = 3\<rparr> 2)) 20 40,
           \<lparr>sampleRateHz = 48000, channelMask = 3, format = 1\<rparr>)"
proof -
  let ?bus = "BusOutputStream ''bus0''
        \<lparr>aidl_format = 1, aidl_sampleRateHz = 48000, aidl_channelMask = 3\<rparr> 2"
  have h: "provider_openOutputStream example_provider (busAddress \<lparr>busAddress = ''bus0''\<rparr>)
     (toAidlAudioConfig \<lparr>sampleRateHz = 48000, channelMask = 3, format = 1\<rparr>) 2 [] =
     (Some ?bus, [])"
    by (simp add: example_provider_def toAidlAudioConfig_def)
  show ?thesis
    using h openOutputStream_echoes_config [OF h, of True "DeviceImpl 20 40" 7 "()"]
    by (simp add: example_provider_def DeviceImpl_def)
qed

text \<open>With the check compiled in, a null bus stream aborts the call.\<close>

lemma openOutputStream_null_aborts:
  "fst (provider_openOutputStream provider (busAddress device) (toAidlAudioConfig config)
          flags p) = None \<Longrightarrow>
   openOutputStream True provider p s ioHandle device config flags sourceMetadata = None"
  by (auto simp: openOutputStream_def split: prod.split)

subsection \<open>Translating the configuration\<close>

lemma sint_below:
  fixes x :: "32 word"
  assumes "uint x < 2 ^ 31"
  shows "sint x = uint x"
proof -
  have "(- 2147483648 :: int) \<le> 0" by simp
  also have "0 \<le> uint x" by simp
  finally have "- 2147483648 \<le> uint x" .
  with assms show ?thesis
    by (simp add: sint_uint signed_take_bit_int_eq_self_iff)
qed

text \<open>
  C7 as stated says that the numeric value of \<^verbatim>\<open>sampleRateHz\<close> is preserved for every
  input. The field is a \<^verbatim>\<open>uint32_t\<close> and is cast to \<^verbatim>\<open>int32_t\<close>: a rate of
  \<open>2 ^ 31\<close> comes out as \<open>- 2 ^ 31\<close>.
\<close>

theorem toAidlAudioConfig_sampleRate_counterexample:
  "uint (sampleRateHz \<lparr>sampleRateHz = 2147483648, channelMask = 3, format = 1\<rparr>) =
     2147483648 \<and>
   sint (aidl_sampleRateHz (toAidlAudioConfig
      \<lparr>sampleRateHz = 2147483648, channelMask = 3, format = 1\<rparr>)) = - 2147483648 \<and>
   sint (aidl_sampleRateHz (toAidlAudioConfig
      \<lparr>sampleRateHz = 2147483648, channelMask = 3, format = 1\<rparr>)) \<noteq>
   uint (sampleRateHz \<lparr>sampleRateHz = 2147483648, channelMask = 3, format = 1\<rparr>)"
  by (simp add: toAidlAudioConfig_def)

text \<open>
  C7, amended: the translation is a total function of its argument alone; it validates
  and rejects nothing. Each of \<^verbatim>\<open>format\<close>, \<^verbatim>\<open>sampleRateHz\<close> and
  \<^verbatim>\<open>channelMask\<close> keeps its 32 bits, and the numeric value of \<^verbatim>\<open>sampleRateHz\<close> is
  preserved exactly whenever it is below \<open>2 ^ 31\<close>.
\<close>

theorem toAidlAudioConfig_reencodes:
  "aidl_format (toAidlAudioConfig c) = format c \<and>
   aidl_sampleRateHz (toAidlAudioConfig c) = sampleRateHz c \<and>
   aidl_channelMask (toAidlAudioConfig c) = channelMask c \<and>
   (uint (sampleRateHz c) < 2 ^ 31 \<longrightarrow>
      sint (aidl_sampleRateHz (toAidlAudioConfig c)) = uint (sampleRateHz c))"
  by (simp add: toAidlAudioConfig_def sint_below)

theorem toAidlAudioConfig_reencodes_witness:
  "uint (sampleRateHz \<lparr>sampleRateHz = 48000, channelMask = 3, format = 1\<rparr>) < 2 ^ 31 \<and>
   toAidlAudioConfig \<lparr>sampleRateHz = 48000, channelMask = 3, format = 1\<rparr> =
     \<lparr>aidl_format = 1, aidl_sampleRateHz = 48000, aidl_channelMask = 3\<rparr> \<and>
   sint (aidl_sampleRateHz
           (toAidlAudioConfig \<lparr>sampleRateHz = 48000, channelMask = 3, format = 1\<rparr>)) = 48000"
proof -
  let ?c = "\<lparr>sampleRateHz = 48000, channelMask = 3, format = 1\<rparr>"
  have h: "uint (sampleRateHz ?c) < 2 ^ 31" by simp
  from toAidlAudioConfig_reencodes [of ?c] h
  have "sint (aidl_sampleRateHz (toAidlAudioConfig ?c)) = uint (sampleRateHz ?c)" by blast
  then show ?thesis using h by (simp add: toAidlAudioConfig_def)
qed

subsection \<open>The unsupported operations\<close>

text \<open>
  C8 as stated gives every unsupported operation a fixed zero, false or empty payload.
  \<^verbatim>\<open>getAudioPort\<close> hands the port it was called with to its callback: the payload is
  not the empty port, and it differs from one call to the next.
\<close>

theorem getAudioPort_payload_counterexample:
  "snd (snd (getAudioPort (DeviceImpl 20 40) \<lparr>port_id = 7, port_name = ''bus0''\<rparr>)) =
     \<lparr>port_id = 7, port_name = ''bus0''\<rparr> \<and>
   snd (snd (getAudioPort (DeviceImpl 20 40) \<lparr>port_id = 7, port_name = ''bus0''\<rparr>)) \<noteq>
     \<lparr>port_id = 0, port_name = []\<rparr> \<and>
   snd (snd (getAudioPort (DeviceImpl 20 40) \<lparr>port_id = 7, port_name = ''bus0''\<rparr>)) \<noteq>
   snd (snd (getAudioPort (DeviceImpl 20 40) \<lparr>port_id = 8, port_name = ''bus1''\<rparr>))"
  by (simp add: getAudioPort_def)

text \<open>
  C8, amended: in every state and for every argument, each unsupported operation returns
  \<^verbatim>\<open>NOT_SUPPORTED\<close> and leaves the state of the device unchanged. Where there is a
  payload it is the fixed zero, false, empty or null value, except that
  \<^verbatim>\<open>getAudioPort\<close> hands back the port it was given and \<^verbatim>\<open>openInputStream\<close> hands
  back, next to the null stream, the configuration it was given.
  \<^verbatim>\<open>setConnectedState\<close> returns \<^verbatim>\<open>Result::OK\<close> and changes nothing.
\<close>

theorem unsupported_operations:
  "setMasterVolume s volume = (s, NOT_SUPPORTED) \<and>
   getMasterVolume s = (s, NOT_SUPPORTED, 0) \<and>
   setMicMute s mute = (s, NOT_SUPPORTED) \<and>
   getMicMute s = (s, NOT_SUPPORTED, False) \<and>
   setMasterMute s mute = (s, NOT_SUPPORTED) \<and>
   getMasterMute s = (s, NOT_SUPPORTED, False) \<and>
   getInputBufferSize s config = (s, NOT_SUPPORTED, 0) \<and>
   openInputStream s ioHandle device config flags sinkMetadata =
     (s, NOT_SUPPORTED, None, config) \<and>
   getAudioPort s port = (s, NOT_SUPPORTED, port) \<and>
   setAudioPortConfig s portConfig = (s, NOT_SUPPORTED) \<and>
   getHwAvSync s = (s, NOT_SUPPORTED, 0) \<and>
   setScreenState s turnedOn = (s, NOT_SUPPORTED) \<and>
   getParameters s ctx keys = (s, NOT_SUPPORTED, []) \<and>
   setParameters s ctx parameters = (s, NOT_SUPPORTED) \<and>
   getMicrophones s = (s, NOT_SUPPORTED, []) \<and>
   addDeviceEffect s portHandle effectId = (s, NOT_SUPPORTED) \<and>
   removeDeviceEffect s portHandle effectId = (s, NOT_SUPPORTED) \<and>
   setConnectedState s address isConnected = (s, OK)"
  by (simp add: setMasterVolume_def getMasterVolume_def setMicMute_def getMicMute_def
      setMasterMute_def getMasterMute_def getInputBufferSize_def openInputStream_def
      getAudioPort_def setAudioPortConfig_def getHwAvSync_def setScreenState_def
      getParameters_def setParameters_def getMicrophones_def addDeviceEffect_def
      removeDeviceEffect_def setConnectedState_def)

subsection \<open>Allocation of handles\<close>

lemma sint_succ:
  fixes x :: "32 word"
  assumes "sint x + 1 < 2 ^ 31"
  shows "sint (x + 1) = sint x + 1"
proof -
  have lo: "- (2 ^ 31) \<le> sint x"
    using sint_ge [of x] by simp
  have "sint (x + 1) = signed_take_bit 31 (sint x + 1)"
    by (simp add: sint_word_ariths)
  also have "\<dots> = sint x + 1"
    using assms lo by (simp add: signed_take_bit_int_eq_self_iff)
  finally show ?thesis .
qed

lemma replies_Create:
  "snd (run_patch_calls s (CreateAudioPatch sources sinks # calls)) =
     Created OK (gNextAudioPatchHandle s) #
     snd (run_patch_calls
            (s\<lparr>gNextAudioPatchHandle := gNextAudioPatchHandle s + 1,
               mAudioPatchHandles := finsert (gNextAudioPatchHandle s) (mAudioPatchHandles s)\<rparr>)
            calls)"
  by (simp add: createAudioPatch_eq split: prod.split)

lemma replies_Release:
  "snd (run_patch_calls s (ReleaseAudioPatch h # calls)) =
     Released h (if h |\<in>| mAudioPatchHandles s then OK else INVALID_ARGUMENTS) #
     snd (run_patch_calls (s\<lparr>mAudioPatchHandles := mAudioPatchHandles s |-| {|h|}\<rparr>) calls)"
  by (simp add: releaseAudioPatch_eq split: prod.split)

declare run_patch_calls.simps(2,3) [simp del]

lemma creates_succeeded_run: "creates_succeeded (snd (run_patch_calls s calls))"
proof (induction calls arbitrary: s)
  case Nil
  show ?case by simp
next
  case (Cons c calls)
  show ?case
    by (cases c) (simp_all add: replies_Create replies_Release Cons.IH)
qed

text \<open>
  While the counter does not overflow, the handles created in a run lie between the
  counter and the counter plus the number of creations.
\<close>

lemma created_handles_range:
  assumes "sint (gNextAudioPatchHandle s) + int (count_creates calls) < 2 ^ 31"
    and "h \<in> set (created_handles (snd (run_patch_calls s calls)))"
  shows "sint (gNextAudioPatchHandle s) \<le> sint h \<and>
         sint h < sint (gNextAudioPatchHandle s) + int (count_creates calls)"
  using assms
proof (induction calls arbitrary: s)
  case Nil
  then show ?case by simp
next
  case (Cons c calls)
  show ?case
  proof (cases c)
    case (CreateAudioPatch sources sinks)
    let ?s1 = "s\<lparr>gNextAudioPatchHandle := gNextAudioPatchHandle s + 1,
               mAudioPatchHandles := finsert (gNextAudioPatchHandle s) (mAudioPatchHandles s)\<rparr>"
    from Cons.prems(1) CreateAudioPatch
    have bound: "sint (gNextAudioPatchHandle s) + 1 + int (count_creates calls) < 2 ^ 31"
      by simp
    then have "sint (gNextAudioPatchHandle s) + 1 < 2 ^ 31"
      by linarith
    then have succ: "sint (gNextAudioPatchHandle s + 1) = sint (gNextAudioPatchHandle s) + 1"
      by (rule sint_succ)
    from Cons.prems(2) CreateAudioPatch
    consider "h = gNextAudioPatchHandle s"
      | "h \<in> set (created_handles (snd (run_patch_calls ?s1 calls)))"
      by (auto simp: replies_Create)
    then show ?thesis
    proof cases
      case 1
      then show ?thesis using CreateAudioPatch by simp
    next
      case 2
      have "sint (gNextAudioPatchHandle ?s1) + int (count_creates calls) < 2 ^ 31"
        using bound succ by simp
      from Cons.IH [OF this 2] show ?thesis
        using succ CreateAudioPatch by simp
    qed
  next
    case (ReleaseAudioPatch h')
    let ?s1 = "s\<lparr>mAudioPatchHandles := mAudioPatchHandles s |-| {|h'|}\<rparr>"
    have b: "sint (gNextAudioPatchHandle ?s1) + int (count_creates calls) < 2 ^ 31"
      using Cons.prems(1) ReleaseAudioPatch by simp
    have m: "h \<in> set (created_handles (snd (run_patch_calls ?s1 calls)))"
      using Cons.prems(2) ReleaseAudioPatch by (simp add: replies_Release)
    from Cons.IH [OF b m] show ?thesis
      using ReleaseAudioPatch by simp
  qed
qed

lemma strictly_increasing_run:
  assumes "sint (gNextAudioPatchHandle s) + int (count_creates calls) < 2 ^ 31"
  shows "strictly_increasing (created_handles (snd (run_patch_calls s calls)))"
  using assms
proof (induction calls arbitrary: s)
  case Nil
  show ?case by (simp add: strictly_increasing_def)
next
  case (Cons c calls)
  show ?case
  proof (cases c)
    case (CreateAudioPatch sources sinks)
    let ?s1 = "s\<lparr>gNextAudioPatchHandle := gNextAudioPatchHandle s + 1,
               mAudioPatchHandles := finsert (gNextAudioPatchHandle s) (mAudioPatchHandles s)\<rparr>"
    from Cons.prems CreateAudioPatch
    have bound: "sint (gNextAudioPatchHandle s) + 1 + int (count_creates calls) < 2 ^ 31"
      by simp
    then have "sint (gNextAudioPatchHandle s) + 1 < 2 ^ 31"
      by linarith
    then have succ: "sint (gNextAudioPatchHandle s + 1) = sint (gNextAudioPatchHandle s) + 1"
      by (rule sint_succ)
    have b1: "sint (gNextAudioPatchHandle ?s1) + int (count_creates calls) < 2 ^ 31"
      using bound succ by simp
    have later: "handle_less (gNextAudioPatchHandle s) h"
      if "h \<in> set (created_handles (snd (run_patch_calls ?s1 calls)))" for h
      using created_handles_range [OF b1 that] succ by (simp add: handle_less_def)
    show ?thesis
      using Cons.IH [OF b1] later CreateAudioPatch
      by (simp add: replies_Create strictly_increasing_def)
  next
    case (ReleaseAudioPatch h')
    then show ?thesis
      using Cons.IH [of "s\<lparr>mAudioPatchHandles := mAudioPatchHandles s |-| {|h'|}\<rparr>"] Cons.prems
      by (simp add: replies_Release)
  qed
qed

lemma strictly_increasing_distinct: "strictly_increasing hs \<Longrightarrow> distinct hs"
  by (induction hs) (auto simp: strictly_increasing_def handle_less_def)

lemma created_handles_fresh:
  assumes "handles_below_counter s"
    and "sint (gNextAudioPatchHandle s) + int (count_creates calls) < 2 ^ 31"
    and "h \<in> set (created_handles (snd (run_patch_calls s calls)))"
  shows "h |\<notin>| mAudioPatchHandles s"
proof
  assume "h |\<in>| mAudioPatchHandles s"
  with assms(1) have "sint h < sint (gNextAudioPatchHandle s)"
    by (auto simp: handles_below_counter_def)
  with created_handles_range [OF assms(2,3)] show False by simp
qed

lemma released_not_reused_run:
  assumes "handles_below_counter s"
    and "sint (gNextAudioPatchHandle s) + int (count_creates calls) < 2 ^ 31"
  shows "released_not_reused (snd (run_patch_calls s calls))"
  using assms
proof (induction calls arbitrary: s)
  case Nil
  show ?case by simp
next
  case (Cons c calls)
  show ?case
  proof (cases c)
    case (CreateAudioPatch sources sinks)
    let ?s1 = "s\<lparr>gNextAudioPatchHandle := gNextAudioPatchHandle s + 1,
               mAudioPatchHandles := finsert (gNextAudioPatchHandle s) (mAudioPatchHandles s)\<rparr>"
    from Cons.prems(2) CreateAudioPatch
    have bound: "sint (gNextAudioPatchHandle s) + 1 + int (count_creates calls) < 2 ^ 31"
      by simp
    then have "sint (gNextAudioPatchHandle s) + 1 < 2 ^ 31"
      by linarith
    then have succ: "sint (gNextAudioPatchHandle s + 1) = sint (gNextAudioPatchHandle s) + 1"
      by (rule sint_succ)
    have b1: "sint (gNextAudioPatchHandle ?s1) + int (count_creates calls) < 2 ^ 31"
      using bound succ by simp
    have inv1: "handles_below_counter ?s1"
      using Cons.prems(1) succ by (auto simp: handles_below_counter_def)
    show ?thesis
      using Cons.IH [OF inv1 b1] CreateAudioPatch by (simp add: replies_Create)
  next
    case (ReleaseAudioPatch h')
    let ?s1 = "s\<lparr>mAudioPatchHandles := mAudioPatchHandles s |-| {|h'|}\<rparr>"
    have b1: "sint (gNextAudioPatchHandle ?s1) + int (count_creates calls) < 2 ^ 31"
      using Cons.prems(2) ReleaseAudioPatch by simp
    have inv1: "handles_below_counter ?s1"
      using Cons.prems(1) by (auto simp: handles_below_counter_def)
    have "h' \<notin> set (created_handles (snd (run_patch_calls ?s1 calls)))"
      if "h' |\<in>| mAudioPatchHandles s"
    proof
      assume "h' \<in> set (created_handles (snd (run_patch_calls ?s1 calls)))"
      from created_handles_range [OF b1 this]
      have "sint (gNextAudioPatchHandle s) \<le> sint h'" by simp
      moreover have "sint h' < sint (gNextAudioPatchHandle s)"
        using Cons.prems(1) that by (auto simp: handles_below_counter_def)
      ultimately show False by simp
    qed
    then show ?thesis
      using Cons.IH [OF inv1 b1] ReleaseAudioPatch by (simp add: replies_Release)
  qed
qed

text \<open>What a run of creations alone returns, whatever the counter does.\<close>

lemma created_handles_replicate:
  "created_handles (snd (run_patch_calls s (replicate n (CreateAudioPatch sources sinks)))) =
     map (\<lambda>i. gNextAudioPatchHandle s + of_nat i) [0..<n]"
proof (induction n arbitrary: s)
  case 0
  show ?case by simp
next
  case (Suc n)
  show ?case
    by (simp add: replies_Create Suc.IH map_upt_Suc add.assoc del: upt_Suc)
qed

lemma not_strictly_increasing_map:
  assumes "i < j" and "j < n"
    and "\<not> handle_less (g + of_nat i) (g + of_nat j)"
  shows "\<not> strictly_increasing (map (\<lambda>k. g + of_nat k) [0..<n])"
proof
  assume "strictly_increasing (map (\<lambda>k. g + of_nat k) [0..<n])"
  then have "sorted_wrt handle_less (map (\<lambda>k. g + of_nat k) [0..<n])"
    by (simp add: strictly_increasing_def)
  from sorted_wrt_nth_less [OF this, of i j] assms(1,2)
  have "handle_less (g + of_nat i) (g + of_nat j)"
    by simp
  with assms(3) show False by simp
qed

text \<open>
  C1 as stated speaks of every sequence of calls. The counter is an \<^verbatim>\<open>int32_t\<close>:
  in a run of \<open>2 ^ 31\<close> creations on a new device, the creation that follows the one
  returning \<open>2 ^ 31 - 1\<close> returns \<open>- 2 ^ 31\<close>, so the handles are not increasing.
\<close>

theorem createAudioPatch_increasing_counterexample:
  "\<not> strictly_increasing (created_handles (snd (run_patch_calls (DeviceImpl 20 40)
        (replicate 2147483648 (CreateAudioPatch ([]::unit list) [])))))"
proof -
  have less: "\<not> handle_less ((1::32 word) + of_nat 2147483646) (1 + of_nat 2147483647)"
    by (simp add: handle_less_def)
  have i: "(2147483646::nat) < 2147483647" by simp
  have j: "(2147483647::nat) < 2147483648" by simp
  have g: "gNextAudioPatchHandle (DeviceImpl 20 40) = 1"
    by (simp add: DeviceImpl_def)
  have "\<not> strictly_increasing (map (\<lambda>k. (1::32 word) + of_nat k) [0..<2147483648])"
    by (rule not_strictly_increasing_map [OF i j less])
  then show ?thesis
    by (simp only: created_handles_replicate g not_False_eq_True)
qed

text \<open>
  C1, amended: take any sequence of \<^verbatim>\<open>createAudioPatch\<close> and
  \<^verbatim>\<open>releaseAudioPatch\<close> calls that starts in a state whose open handles are all below
  the counter (a new device is one) and during which the counter stays below
  \<open>2 ^ 31\<close>. Then every \<^verbatim>\<open>createAudioPatch\<close> returns \<^verbatim>\<open>Result::OK\<close>, the handles
  returned are strictly increasing in the order of allocation and pairwise distinct,
  none of them was open at the start, and a handle that a call released is not returned
  by any later creation.
\<close>

theorem createAudioPatch_handles_increasing:
  assumes "handles_below_counter s"
    and "sint (gNextAudioPatchHandle s) + int (count_creates calls) < 2 ^ 31"
  shows "creates_succeeded (snd (run_patch_calls s calls)) \<and>
         strictly_increasing (created_handles (snd (run_patch_calls s calls))) \<and>
         distinct (created_handles (snd (run_patch_calls s calls))) \<and>
         (\<forall>h \<in> set (created_handles (snd (run_patch_calls s calls))).
            h |\<notin>| mAudioPatchHandles s) \<and>
         released_not_reused (snd (run_patch_calls s calls))"
  using assms creates_succeeded_run [of s calls] strictly_increasing_run [of s calls]
    strictly_increasing_distinct released_not_reused_run [of s calls]
    created_handles_fresh [of s calls]
  by blast

theorem createAudioPatch_handles_increasing_witness:
  "handles_below_counter (DeviceImpl 20 40) \<and>
   sint (gNextAudioPatchHandle (DeviceImpl 20 40)) +
     int (count_creates [CreateAudioPatch [] ([]::unit list), CreateAudioPatch [] [],
            ReleaseAudioPatch 1, ReleaseAudioPatch 1, CreateAudioPatch [] []]) < 2 ^ 31 \<and>
   snd (run_patch_calls (DeviceImpl 20 40)
          [CreateAudioPatch [] ([]::unit list), CreateAudioPatch [] [],
           ReleaseAudioPatch 1, ReleaseAudioPatch 1, CreateAudioPatch [] []]) =
     [Created OK 1, Created OK 2, Released 1 OK, Released 1 INVALID_ARGUMENTS, Created OK 3] \<and>
   strictly_increasing [1, 2, 3] \<and>
   released_not_reused
     [Created OK 1, Created OK 2, Released 1 OK, Released 1 INVALID_ARGUMENTS, Created OK 3]"
proof -
  let ?calls = "[CreateAudioPatch [] ([]::unit list), CreateAudioPatch [] [],
           ReleaseAudioPatch 1, ReleaseAudioPatch 1, CreateAudioPatch [] []]"
  have inv: "handles_below_counter (DeviceImpl 20 40)"
    by (simp add: handles_below_counter_def DeviceImpl_def)
  have bound: "sint (gNextAudioPatchHandle (DeviceImpl 20 40)) + int (count_creates ?calls)
                 < 2 ^ 31"
    by (simp add: DeviceImpl_def)
  have run: "snd (run_patch_calls (DeviceImpl 20 40) ?calls) =
     [Created OK 1, Created OK 2, Released 1 OK, Released 1 INVALID_ARGUMENTS, Created OK 3]"
    by (simp add: replies_Create replies_Release DeviceImpl_def)
  show ?thesis
    using inv bound createAudioPatch_handles_increasing [OF inv bound]
    by (simp add: run)
qed

subsection \<open>Updating a patch that is open\<close>

text \<open>The open handles stay below the counter as long as it does not overflow.\<close>

lemma handles_below_counter_DeviceImpl: "handles_below_counter (DeviceImpl bufferSizeMs latencyMs)"
  by (simp add: handles_below_counter_def DeviceImpl_def)

lemma handles_below_counter_create:
  assumes "handles_below_counter s" and "sint (gNextAudioPatchHandle s) + 1 < 2 ^ 31"
  shows "handles_below_counter (fst (createAudioPatch s sources sinks))"
  using assms(1) sint_succ [OF assms(2)]
  by (auto simp: handles_below_counter_def createAudioPatch_eq)

lemma handles_below_counter_release:
  assumes "handles_below_counter s"
  shows "handles_below_counter (fst (releaseAudioPatch s h))"
  using assms by (auto simp: handles_below_counter_def releaseAudioPatch_eq)

lemma handles_below_counter_update:
  assumes "handles_below_counter s" and "sint (gNextAudioPatchHandle s) + 1 < 2 ^ 31"
  shows "handles_below_counter (fst (updateAudioPatch s h sources sinks))"
proof (cases "h |\<in>| mAudioPatchHandles s")
  case True
  then show ?thesis
    using assms(1) sint_succ [OF assms(2)]
    by (auto simp: handles_below_counter_def updateAudioPatch_eq)
next
  case False
  then show ?thesis
    using assms(1) by (simp add: updateAudioPatch_def erase_absent)
qed

lemma handles_below_counter_open:
  assumes "handles_below_counter s" and "h |\<in>| mAudioPatchHandles s"
  shows "gNextAudioPatchHandle s \<noteq> h"
  using assms by (auto simp: handles_below_counter_def)

text \<open>A cycle that creates a patch and releases it again only moves the counter.\<close>

lemma create_release_cycles_eq:
  assumes "\<forall>i<n. gNextAudioPatchHandle s + of_nat i |\<notin>| mAudioPatchHandles s"
  shows "create_release_cycles n s =
           s\<lparr>gNextAudioPatchHandle := gNextAudioPatchHandle s + of_nat n\<rparr>"
  using assms
proof (induction n arbitrary: s)
  case 0
  show ?case by simp
next
  case (Suc n)
  let ?g = "gNextAudioPatchHandle s"
  let ?s1 = "s\<lparr>gNextAudioPatchHandle := ?g + 1\<rparr>"
  from Suc.prems have "?g + of_nat 0 |\<notin>| mAudioPatchHandles s"
    by blast
  then have fresh: "?g |\<notin>| mAudioPatchHandles s" by simp
  have step: "fst (releaseAudioPatch (fst (createAudioPatch s ([]::unit list) [])) ?g) = ?s1"
    using fresh by (simp add: createAudioPatch_eq releaseAudioPatch_eq)
  have "\<forall>i<n. gNextAudioPatchHandle ?s1 + of_nat i |\<notin>| mAudioPatchHandles ?s1"
  proof (intro allI impI)
    fix i assume "i < n"
    then have "?g + of_nat (Suc i) |\<notin>| mAudioPatchHandles s"
      using Suc.prems by (meson Suc_less_eq)
    then show "gNextAudioPatchHandle ?s1 + of_nat i |\<notin>| mAudioPatchHandles ?s1"
      by (simp add: ac_simps)
  qed
  from Suc.IH [OF this] have "create_release_cycles n ?s1 =
      s\<lparr>gNextAudioPatchHandle := ?g + 1 + of_nat n\<rparr>"
    by simp
  then show ?case
    using step by (simp add: createAudioPatch_eq add.assoc)
qed

text \<open>After \<open>2 ^ 32\<close> allocations the counter is back at the handle that is still open.\<close>

lemma wrapped_state_eq:
  "wrapped_state = \<lparr>gNextAudioPatchHandle = 1, mBufferSizeMs = 20, mLatencyMs = 40,
       mAudioPatchHandles = {|1|}\<rparr>"
proof -
  let ?s = "\<lparr>gNextAudioPatchHandle = 2, mBufferSizeMs = 20, mLatencyMs = 40,
       mAudioPatchHandles = {|1|}\<rparr>"
  have s: "fst (createAudioPatch (DeviceImpl 20 40) ([]::unit list) []) = ?s"
    by (simp add: createAudioPatch_eq DeviceImpl_def)
  have "\<forall>i<4294967295. gNextAudioPatchHandle ?s + of_nat i |\<notin>| mAudioPatchHandles ?s"
  proof (intro allI impI)
    fix i :: nat assume i: "i < 4294967295"
    have "(of_nat (Suc i) :: 32 word) \<noteq> 0"
    proof
      assume "(of_nat (Suc i) :: 32 word) = 0"
      then have "2 ^ LENGTH(32) dvd Suc i"
        by (simp only: word_of_nat_eq_0_iff)
      then have "4294967296 dvd Suc i"
        by simp
      then have "4294967296 \<le> Suc i"
        by (rule dvd_imp_le) simp
      with i show False by simp
    qed
    moreover have "(of_nat (Suc i) :: 32 word) = (2 + of_nat i) - 1"
      by simp
    ultimately have "(2::32 word) + of_nat i \<noteq> 1"
      by auto
    then show "gNextAudioPatchHandle ?s + of_nat i |\<notin>| mAudioPatchHandles ?s"
      by simp
  qed
  from create_release_cycles_eq [OF this]
  have "create_release_cycles 4294967295 ?s = ?s\<lparr>gNextAudioPatchHandle := 2 + of_nat 4294967295\<rparr>"
    by simp
  then show ?thesis
    by (simp add: wrapped_state_def s)
qed

text \<open>
  C3 as stated speaks of every state in which \<open>h\<close> is open. When the counter has gone
  round and stands at \<open>h\<close> itself, \<^verbatim>\<open>updateAudioPatch(h, \<dots>)\<close> erases \<open>h\<close>, allocates
  \<open>h\<close> again and returns it: the new handle equals the old one and releasing \<open>h\<close>
  afterwards succeeds.
\<close>

theorem updateAudioPatch_same_handle_counterexample:
  "1 |\<in>| mAudioPatchHandles wrapped_state \<and>
   fst (snd (updateAudioPatch wrapped_state 1 ([]::unit list) [])) = OK \<and>
   snd (snd (updateAudioPatch wrapped_state 1 ([]::unit list) [])) = 1 \<and>
   snd (releaseAudioPatch (fst (updateAudioPatch wrapped_state 1 ([]::unit list) [])) 1) = OK"
  by (simp add: wrapped_state_eq updateAudioPatch_eq releaseAudioPatch_eq)

text \<open>
  C3, amended: in every state in which \<open>h\<close> is open and the counter does not stand at
  \<open>h\<close> (so in every state whose open handles are below the counter),
  \<^verbatim>\<open>updateAudioPatch(h, sources, sinks)\<close> returns \<^verbatim>\<open>Result::OK\<close> with a new handle
  different from \<open>h\<close>, removes \<open>h\<close> from the set of open handles and inserts the new
  handle; afterwards \<^verbatim>\<open>releaseAudioPatch(h)\<close> fails with \<^verbatim>\<open>INVALID_ARGUMENTS\<close> and
  releasing the new handle succeeds.
\<close>

theorem updateAudioPatch_open:
  assumes "h |\<in>| mAudioPatchHandles s"
    and "gNextAudioPatchHandle s \<noteq> h"
  shows "updateAudioPatch s h sources sinks =
           (s\<lparr>gNextAudioPatchHandle := gNextAudioPatchHandle s + 1,
              mAudioPatchHandles :=
                finsert (gNextAudioPatchHandle s) (mAudioPatchHandles s |-| {|h|})\<rparr>,
            OK, gNextAudioPatchHandle s) \<and>
         snd (snd (updateAudioPatch s h sources sinks)) \<noteq> h \<and>
         snd (releaseAudioPatch (fst (updateAudioPatch s h sources sinks)) h) =
           INVALID_ARGUMENTS \<and>
         snd (releaseAudioPatch (fst (updateAudioPatch s h sources sinks))
                (snd (snd (updateAudioPatch s h sources sinks)))) = OK"
  using assms by (auto simp: updateAudioPatch_eq releaseAudioPatch_eq)

theorem updateAudioPatch_open_witness:
  "1 |\<in>| mAudioPatchHandles (fst (createAudioPatch (DeviceImpl 20 40) ([]::unit list) [])) \<and>
   gNextAudioPatchHandle (fst (createAudioPatch (DeviceImpl 20 40) ([]::unit list) [])) \<noteq> 1 \<and>
   updateAudioPatch (fst (createAudioPatch (DeviceImpl 20 40) ([]::unit list) [])) 1
       ([]::unit list) [] =
     (\<lparr>gNextAudioPatchHandle = 3, mBufferSizeMs = 20, mLatencyMs = 40,
       mAudioPatchHandles = {|2|}\<rparr>, OK, 2) \<and>
   releaseAudioPatch \<lparr>gNextAudioPatchHandle = 3, mBufferSizeMs = 20, mLatencyMs = 40,
       mAudioPatchHandles = {|2|}\<rparr> 1 =
     (\<lparr>gNextAudioPatchHandle = 3, mBufferSizeMs = 20, mLatencyMs = 40,
       mAudioPatchHandles = {|2|}\<rparr>, INVALID_ARGUMENTS) \<and>
   releaseAudioPatch \<lparr>gNextAudioPatchHandle = 3, mBufferSizeMs = 20, mLatencyMs = 40,
       mAudioPatchHandles = {|2|}\<rparr> 2 =
     (\<lparr>gNextAudioPatchHandle = 3, mBufferSizeMs = 20, mLatencyMs = 40,
       mAudioPatchHandles = {||}\<rparr>, OK)"
proof -
  let ?s = "fst (createAudioPatch (DeviceImpl 20 40) ([]::unit list) [])"
  have s: "?s = \<lparr>gNextAudioPatchHandle = 2, mBufferSizeMs = 20, mLatencyMs = 40,
       mAudioPatchHandles = {|1|}\<rparr>"
    by (simp add: createAudioPatch_eq DeviceImpl_def)
  have h1: "1 |\<in>| mAudioPatchHandles ?s" by (simp add: s)
  have h2: "gNextAudioPatchHandle ?s \<noteq> 1" by (simp add: s)
  show ?thesis
    using h1 h2 updateAudioPatch_open [OF h1 h2, of "[]::unit list" "[]"]
    by (simp add: s releaseAudioPatch_eq)
qed

end
